theory Spec2Isabelle
  imports Main "HOL-Library.Word"
begin

section \<open>The YKUSH3 driver (ykush3.go)\<close>

text \<open>
  The driver talks to a three-port USB power switch over a HID transport. An
  operation writes one 64-byte report and then reads one 64-byte report back. The
  model below follows ykush3.go function by function. Go's multiple return values
  \<open>(value, error)\<close> are pairs whose second component is an \<open>error option\<close>
  (\<open>None\<close> is Go's \<open>nil\<close> error); the receiver \<open>y *YKUSH3\<close>, which the methods
  mutate, is threaded through as explicit state.
\<close>

subsection \<open>Constants and types\<close>

type_synonym byte = "8 word"

text \<open>\<open>const ReportSize = 64\<close>\<close>

definition ReportSize :: nat where
  "ReportSize = 64"

text \<open>
  \<open>type Port int\<close> with the four named constants. Any other integer is a value of
  the type too, so \<open>Port\<close> is \<open>int\<close>; the code only compares ports for equality.
\<close>

type_synonym Port = int

definition Port1 :: Port where
  "Port1 = 1"

definition Port2 :: Port where
  "Port2 = 2"

definition Port3 :: Port where
  "Port3 = 3"

definition AllPorts :: Port where
  "AllPorts = 10"

text \<open>\<open>type PortState bool\<close>, \<open>PortOff = false\<close>, \<open>PortOn = true\<close>\<close>

type_synonym PortState = bool

definition PortOff :: PortState where
  "PortOff = False"

definition PortOn :: PortState where
  "PortOn = True"

subsection \<open>Errors\<close>

text \<open>
  Go errors are values built by \<open>errors.New\<close> and \<open>fmt.Errorf\<close>. Each message
  format of ykush3.go is one constructor, carrying the values the format prints
  (\<open>%d\<close>, \<open>0x%02x\<close>) or wraps (\<open>%w\<close>). \<open>hid_error\<close> is an error value produced by
  the HID library.
\<close>

datatype hid_error = HidError string

datatype error =
    NotConnected
      \<comment> \<open>\<open>errors.New("device not connected")\<close>\<close>
  | SendFailed hid_error
      \<comment> \<open>\<open>"failed to send command: %w"\<close>\<close>
  | ReadFailed hid_error
      \<comment> \<open>\<open>"failed to read response: %w"\<close>\<close>
  | InvalidPort Port
      \<comment> \<open>\<open>"invalid port: %d"\<close>\<close>
  | UnexpectedResponse byte byte
      \<comment> \<open>\<open>"unexpected response: status=0x%02x, response=0x%02x"\<close>\<close>
  | InvalidStatePort Port
      \<comment> \<open>\<open>"invalid port for state query: %d"\<close>\<close>
  | CommandFailed byte
      \<comment> \<open>\<open>"command failed: status=0x%02x"\<close>\<close>
  | UnexpectedState byte
      \<comment> \<open>\<open>"unexpected state response: 0x%02x"\<close>\<close>
  | GetStateFailed Port error
      \<comment> \<open>\<open>"failed to get state for port %d: %w"\<close>\<close>
  | Hid hid_error
      \<comment> \<open>an error of the HID library returned to the caller as it is\<close>

subsection \<open>The HID transport\<close>

text \<open>
  The transport (package go-hid) is outside the repository, so it is a parameter: a
  record of the four device methods the driver calls, over an arbitrary device state
  \<open>'d\<close>.
  \<^item> \<open>Write(p)\<close> returns a byte count and an error.
  \<^item> \<open>Read(p)\<close> is given the buffer's length and returns the bytes the device
    delivered, a byte count and an error; the delivered bytes overwrite the front of
    the caller's buffer (\<open>fill\<close>), whose length a callee cannot change.
  \<^item> \<open>Close()\<close> returns an error.
  \<^item> \<open>GetSerialNbr()\<close> returns a string and an error.
\<close>

record 'd hid =
  hid_Write :: "'d \<Rightarrow> byte list \<Rightarrow> 'd \<times> int \<times> hid_error option"
  hid_Read :: "'d \<Rightarrow> nat \<Rightarrow> 'd \<times> byte list \<times> int \<times> hid_error option"
  hid_Close :: "'d \<Rightarrow> hid_error option"
  hid_GetSerialNbr :: "'d \<Rightarrow> 'd \<times> string \<times> hid_error option"

definition fill :: "byte list \<Rightarrow> byte list \<Rightarrow> byte list" where
  "fill buf data = take (length buf) data @ drop (length data) buf"

text \<open>
  Every call that reaches the transport is recorded, in order, with its argument: the
  report written, or the size of the buffer offered for reading.
\<close>

datatype hid_call = HidWrite "byte list" | HidRead nat | HidClose | HidGetSerialNbr

fun writes_of :: "hid_call list \<Rightarrow> byte list list" where
  "writes_of [] = []"
| "writes_of (HidWrite buf # cs) = buf # writes_of cs"
| "writes_of (c # cs) = writes_of cs"

subsection \<open>The device handle\<close>

text \<open>
  \<open>type YKUSH3 struct { device *hid.Device; serial string }\<close>. The pointer is an
  option: \<open>None\<close> is \<open>nil\<close>, \<open>Some d\<close> an open device in state \<open>d\<close>. The state the
  methods run in is the handle together with the record of transport calls.
\<close>

record 'd YKUSH3 =
  device :: "'d option"
  serial :: string

record 'd world =
  handle :: "'d YKUSH3"
  trace :: "hid_call list"

definition set_device :: "'d option \<Rightarrow> hid_call \<Rightarrow> 'd world \<Rightarrow> 'd world" where
  "set_device dv c w = \<lparr>handle = (handle w)\<lparr>device := dv\<rparr>, trace = trace w @ [c]\<rparr>"

subsection \<open>Close and GetSerial\<close>

definition Close :: "'d hid \<Rightarrow> 'd world \<Rightarrow> error option \<times> 'd world" where
  "Close T w =
     (case device (handle w) of
        Some d \<Rightarrow>
          (let err = hid_Close T d
           in (map_option Hid err, set_device None HidClose w))
      | None \<Rightarrow> (None, w))"

definition GetSerial :: "'d hid \<Rightarrow> 'd world \<Rightarrow> (string \<times> error option) \<times> 'd world" where
  "GetSerial T w =
     (case device (handle w) of
        None \<Rightarrow> (('''', Some NotConnected), w)
      | Some d \<Rightarrow>
          (case hid_GetSerialNbr T d of
             (d1, s, err) \<Rightarrow> ((s, map_option Hid err), set_device (Some d1) HidGetSerialNbr w)))"

subsection \<open>sendCommand\<close>

text \<open>
  A \<open>nil\<close> slice is the empty list. The counts returned by \<open>Write\<close> and \<open>Read\<close> are
  bound to \<open>_\<close> in the source; here they are the ignored components \<open>n\<close>.
\<close>

definition sendCommand ::
  "'d hid \<Rightarrow> byte \<Rightarrow> byte \<Rightarrow> 'd world \<Rightarrow> (byte list \<times> error option) \<times> 'd world" where
  "sendCommand T cmd ctrl w =
     (case device (handle w) of
        None \<Rightarrow> (([], Some NotConnected), w)
      | Some d \<Rightarrow>
          (let cmdBuf = (replicate ReportSize 0)[0 := cmd, 1 := ctrl]
           in case hid_Write T d cmdBuf of
             (d1, n, werr) \<Rightarrow>
               (let w1 = set_device (Some d1) (HidWrite cmdBuf) w
                in case werr of
                  Some e \<Rightarrow> (([], Some (SendFailed e)), w1)
                | None \<Rightarrow>
                    (let respBuf = replicate ReportSize 0
                     in case hid_Read T d1 (length respBuf) of
                       (d2, data, n, rerr) \<Rightarrow>
                         (let w2 = set_device (Some d2) (HidRead (length respBuf)) w1
                          in case rerr of
                            Some e \<Rightarrow> (([], Some (ReadFailed e)), w2)
                          | None \<Rightarrow> ((fill respBuf data, None), w2))))))"

subsection \<open>PortUp, PortDown, GetPortState\<close>

text \<open>
  The \<open>switch port\<close> that opens each of the three methods either assigns \<open>cmd\<close> or
  returns the invalid-port error; \<open>None\<close> is the \<open>default\<close> branch.
\<close>

definition PortUp_cmd :: "Port \<Rightarrow> byte option" where
  "PortUp_cmd port =
     (if port = Port1 then Some 0x11
      else if port = Port2 then Some 0x12
      else if port = Port3 then Some 0x13
      else if port = AllPorts then Some 0x1A
      else None)"

definition PortDown_cmd :: "Port \<Rightarrow> byte option" where
  "PortDown_cmd port =
     (if port = Port1 then Some 0x01
      else if port = Port2 then Some 0x02
      else if port = Port3 then Some 0x03
      else if port = AllPorts then Some 0x0A
      else None)"

definition GetPortState_cmd :: "Port \<Rightarrow> byte option" where
  "GetPortState_cmd port =
     (if port = Port1 then Some 0x21
      else if port = Port2 then Some 0x22
      else if port = Port3 then Some 0x23
      else None)"

definition PortUp :: "'d hid \<Rightarrow> Port \<Rightarrow> 'd world \<Rightarrow> error option \<times> 'd world" where
  "PortUp T port w =
     (case PortUp_cmd port of
        None \<Rightarrow> (Some (InvalidPort port), w)
      | Some cmd \<Rightarrow>
          (case sendCommand T cmd cmd w of
             ((resp, Some err), w') \<Rightarrow> (Some err, w')
           | ((resp, None), w') \<Rightarrow>
               if resp ! 0 \<noteq> 0x01 \<or> resp ! 1 \<noteq> cmd
               then (Some (UnexpectedResponse (resp ! 0) (resp ! 1)), w')
               else (None, w')))"

definition PortDown :: "'d hid \<Rightarrow> Port \<Rightarrow> 'd world \<Rightarrow> error option \<times> 'd world" where
  "PortDown T port w =
     (case PortDown_cmd port of
        None \<Rightarrow> (Some (InvalidPort port), w)
      | Some cmd \<Rightarrow>
          (case sendCommand T cmd cmd w of
             ((resp, Some err), w') \<Rightarrow> (Some err, w')
           | ((resp, None), w') \<Rightarrow>
               if resp ! 0 \<noteq> 0x01 \<or> resp ! 1 \<noteq> cmd
               then (Some (UnexpectedResponse (resp ! 0) (resp ! 1)), w')
               else (None, w')))"

definition GetPortState ::
  "'d hid \<Rightarrow> Port \<Rightarrow> 'd world \<Rightarrow> (PortState \<times> error option) \<times> 'd world" where
  "GetPortState T port w =
     (case GetPortState_cmd port of
        None \<Rightarrow> ((PortOff, Some (InvalidStatePort port)), w)
      | Some cmd \<Rightarrow>
          (case sendCommand T cmd cmd w of
             ((resp, Some err), w') \<Rightarrow> ((PortOff, Some err), w')
           | ((resp, None), w') \<Rightarrow>
               if resp ! 0 \<noteq> 0x01
               then ((PortOff, Some (CommandFailed (resp ! 0))), w')
               else if resp ! 1 = 0x01 \<or> resp ! 1 = 0x02 \<or> resp ! 1 = 0x03
               then ((PortOff, None), w')
               else if resp ! 1 = 0x11 \<or> resp ! 1 = 0x12 \<or> resp ! 1 = 0x13
               then ((PortOn, None), w')
               else ((PortOff, Some (UnexpectedState (resp ! 1))), w')))"

subsection \<open>SetPortState, AllPortsUp, AllPortsDown\<close>

definition SetPortState ::
  "'d hid \<Rightarrow> Port \<Rightarrow> PortState \<Rightarrow> 'd world \<Rightarrow> error option \<times> 'd world" where
  "SetPortState T port state w = (if state then PortUp T port w else PortDown T port w)"

definition AllPortsUp :: "'d hid \<Rightarrow> 'd world \<Rightarrow> error option \<times> 'd world" where
  "AllPortsUp T w = PortUp T AllPorts w"

definition AllPortsDown :: "'d hid \<Rightarrow> 'd world \<Rightarrow> error option \<times> 'd world" where
  "AllPortsDown T w = PortDown T AllPorts w"

subsection \<open>GetAllPortsState\<close>

text \<open>
  The \<open>for _, port := range ports\<close> loop, with the map \<open>states\<close> built so far as
  accumulator. The result map is an option: \<open>None\<close> is the \<open>nil\<close> map returned with
  an error, which is not the empty map.
\<close>

fun GetAllPortsState_loop ::
  "'d hid \<Rightarrow> Port list \<Rightarrow> (Port \<rightharpoonup> PortState) \<Rightarrow> 'd world
     \<Rightarrow> ((Port \<rightharpoonup> PortState) option \<times> error option) \<times> 'd world" where
  "GetAllPortsState_loop T [] states w = ((Some states, None), w)"
| "GetAllPortsState_loop T (port # ports) states w =
     (case GetPortState T port w of
        ((state, Some err), w') \<Rightarrow> ((None, Some (GetStateFailed port err)), w')
      | ((state, None), w') \<Rightarrow> GetAllPortsState_loop T ports (states(port \<mapsto> state)) w')"

definition GetAllPortsState ::
  "'d hid \<Rightarrow> 'd world \<Rightarrow> ((Port \<rightharpoonup> PortState) option \<times> error option) \<times> 'd world" where
  "GetAllPortsState T w = GetAllPortsState_loop T [Port1, Port2, Port3] Map.empty w"

subsection \<open>Concrete transports and handles\<close>

text \<open>
  Three transports to run the driver on. \<open>scripted\<close> accepts every write and
  answers each read with the next reply of a list, failing once the list is used up;
  \<open>write_fails\<close> rejects every write; \<open>recount wn rn T\<close> behaves as \<open>T\<close> but
  reports the byte counts \<open>wn\<close> and \<open>rn\<close> choose. \<open>opened d\<close> is a fresh handle
  on a device in state \<open>d\<close>, as \<open>New\<close> returns it.
\<close>

definition scripted :: "byte list list hid" where
  "scripted =
     \<lparr>hid_Write = (\<lambda>d buf. (d, int (length buf), None)),
      hid_Read = (\<lambda>d n. case d of
                     [] \<Rightarrow> ([], [], - 1, Some (HidError ''read failed''))
                   | r # rs \<Rightarrow> (rs, take n r, int (length (take n r)), None)),
      hid_Close = (\<lambda>d. None),
      hid_GetSerialNbr = (\<lambda>d. (d, ''YK00001'', None))\<rparr>"

definition write_fails :: "unit hid" where
  "write_fails =
     \<lparr>hid_Write = (\<lambda>d buf. (d, - 1, Some (HidError ''write failed''))),
      hid_Read = (\<lambda>d n. (d, [], 0, None)),
      hid_Close = (\<lambda>d. None),
      hid_GetSerialNbr = (\<lambda>d. (d, [], None))\<rparr>"

definition recount :: "('d \<Rightarrow> byte list \<Rightarrow> int) \<Rightarrow> ('d \<Rightarrow> nat \<Rightarrow> int) \<Rightarrow> 'd hid \<Rightarrow> 'd hid" where
  "recount wn rn T =
     T\<lparr>hid_Write := (\<lambda>d buf. case hid_Write T d buf of (d1, n, e) \<Rightarrow> (d1, wn d buf, e)),
       hid_Read := (\<lambda>d k. case hid_Read T d k of (d1, data, n, e) \<Rightarrow> (d1, data, rn d k, e))\<rparr>"

definition opened :: "'d \<Rightarrow> 'd world" where
  "opened d = \<lparr>handle = \<lparr>device = Some d, serial = ''''\<rparr>, trace = []\<rparr>"

section \<open>Properties\<close>

subsection \<open>Reports, buffers and the exchange\<close>

lemma replicate_update2: "(replicate (Suc (Suc k)) z)[0 := a, 1 := b] = a # b # replicate k z"
  by simp

lemma cmdBuf_eq: "(replicate ReportSize 0)[0 := cmd, 1 := ctrl] = cmd # ctrl # replicate 62 0"
proof -
  have eq: "ReportSize = Suc (Suc 62)"
    by (simp add: ReportSize_def)
  show ?thesis
    unfolding eq by (rule replicate_update2)
qed

lemma length_fill [simp]: "length (fill buf data) = length buf"
  by (simp add: fill_def)

lemma sendCommand_closed:
  "device (handle w) = None \<Longrightarrow> sendCommand T cmd ctrl w = (([], Some NotConnected), w)"
  by (simp add: sendCommand_def)

lemma sendCommand_open:
  assumes "device (handle w) = Some d"
      and "hid_Write T d (cmd # ctrl # replicate 62 0) = (d1, n, werr)"
      and "hid_Read T d1 64 = (d2, data, m, rerr)"
  shows "sendCommand T cmd ctrl w =
     (case werr of
        Some e \<Rightarrow> (([], Some (SendFailed e)),
                   set_device (Some d1) (HidWrite (cmd # ctrl # replicate 62 0)) w)
      | None \<Rightarrow>
         (case rerr of
            Some e \<Rightarrow> (([], Some (ReadFailed e)),
                   set_device (Some d2) (HidRead 64)
                     (set_device (Some d1) (HidWrite (cmd # ctrl # replicate 62 0)) w))
          | None \<Rightarrow> ((fill (replicate 64 0) data, None),
                   set_device (Some d2) (HidRead 64)
                     (set_device (Some d1) (HidWrite (cmd # ctrl # replicate 62 0)) w))))"
proof -
  have len: "length (replicate ReportSize (0::byte)) = 64"
    by (simp add: ReportSize_def)
  show ?thesis
    unfolding sendCommand_def cmdBuf_eq len Let_def
    using assms by (simp add: ReportSize_def split: option.splits)
qed


lemma writes_of_append: "writes_of (xs @ ys) = writes_of xs @ writes_of ys"
  by (induction xs rule: writes_of.induct) simp_all

lemma sendCommand_writes:
  assumes "device (handle w) = Some d"
  shows "writes_of (trace (snd (sendCommand T cmd ctrl w))) =
           writes_of (trace w) @ [cmd # ctrl # replicate 62 0]"
proof -
  obtain d1 n werr where W: "hid_Write T d (cmd # ctrl # replicate 62 0) = (d1, n, werr)"
    by (cases "hid_Write T d (cmd # ctrl # replicate 62 0)") auto
  obtain d2 data m rerr where R: "hid_Read T d1 64 = (d2, data, m, rerr)"
    by (cases "hid_Read T d1 64") auto
  show ?thesis
    by (simp add: sendCommand_open [OF assms W R] set_device_def writes_of_append
             split: option.splits)
qed

lemma PortUp_writes:
  assumes "device (handle w) = Some d" and "PortUp_cmd port = Some c"
  shows "writes_of (trace (snd (PortUp T port w))) = writes_of (trace w) @ [c # c # replicate 62 0]"
proof -
  have "snd (PortUp T port w) = snd (sendCommand T c c w)"
    using assms(2) by (simp add: PortUp_def split: prod.splits option.splits)
  then show ?thesis
    by (simp add: sendCommand_writes [OF assms(1)])
qed

lemma PortDown_writes:
  assumes "device (handle w) = Some d" and "PortDown_cmd port = Some c"
  shows "writes_of (trace (snd (PortDown T port w))) = writes_of (trace w) @ [c # c # replicate 62 0]"
proof -
  have "snd (PortDown T port w) = snd (sendCommand T c c w)"
    using assms(2) by (simp add: PortDown_def split: prod.splits option.splits)
  then show ?thesis
    by (simp add: sendCommand_writes [OF assms(1)])
qed

lemma GetPortState_writes:
  assumes "device (handle w) = Some d" and "GetPortState_cmd port = Some c"
  shows "writes_of (trace (snd (GetPortState T port w))) = writes_of (trace w) @ [c # c # replicate 62 0]"
proof -
  have "snd (GetPortState T port w) = snd (sendCommand T c c w)"
    using assms(2) by (simp add: GetPortState_def split: prod.splits option.splits)
  then show ?thesis
    by (simp add: sendCommand_writes [OF assms(1)])
qed

lemma PortUp_cmd_simps:
  "PortUp_cmd Port1 = Some 0x11" "PortUp_cmd Port2 = Some 0x12"
  "PortUp_cmd Port3 = Some 0x13" "PortUp_cmd AllPorts = Some 0x1A"
  by (simp_all add: PortUp_cmd_def Port1_def Port2_def Port3_def AllPorts_def)

lemma PortDown_cmd_simps:
  "PortDown_cmd Port1 = Some 0x01" "PortDown_cmd Port2 = Some 0x02"
  "PortDown_cmd Port3 = Some 0x03" "PortDown_cmd AllPorts = Some 0x0A"
  by (simp_all add: PortDown_cmd_def Port1_def Port2_def Port3_def AllPorts_def)

lemma GetPortState_cmd_simps:
  "GetPortState_cmd Port1 = Some 0x21" "GetPortState_cmd Port2 = Some 0x22"
  "GetPortState_cmd Port3 = Some 0x23" "GetPortState_cmd AllPorts = None"
  by (simp_all add: GetPortState_cmd_def Port1_def Port2_def Port3_def AllPorts_def)

subsection \<open>The command table\<close>

text \<open>
  Claim C1. On an open handle each operation writes one report whose command byte and
  control byte are the byte of the fixed table: PortUp sends 0x11, 0x12, 0x13, 0x1A for
  Port1, Port2, Port3, AllPorts; PortDown sends 0x01, 0x02, 0x03, 0x0A; GetPortState
  sends 0x21, 0x22, 0x23 for Port1, Port2, Port3.
\<close>

theorem command_table:
  assumes "device (handle w) = Some d"
  shows "writes_of (trace (snd (PortUp T Port1 w))) = writes_of (trace w) @ [0x11 # 0x11 # replicate 62 0]
       \<and> writes_of (trace (snd (PortUp T Port2 w))) = writes_of (trace w) @ [0x12 # 0x12 # replicate 62 0]
       \<and> writes_of (trace (snd (PortUp T Port3 w))) = writes_of (trace w) @ [0x13 # 0x13 # replicate 62 0]
       \<and> writes_of (trace (snd (PortUp T AllPorts w))) = writes_of (trace w) @ [0x1A # 0x1A # replicate 62 0]
       \<and> writes_of (trace (snd (PortDown T Port1 w))) = writes_of (trace w) @ [0x01 # 0x01 # replicate 62 0]
       \<and> writes_of (trace (snd (PortDown T Port2 w))) = writes_of (trace w) @ [0x02 # 0x02 # replicate 62 0]
       \<and> writes_of (trace (snd (PortDown T Port3 w))) = writes_of (trace w) @ [0x03 # 0x03 # replicate 62 0]
       \<and> writes_of (trace (snd (PortDown T AllPorts w))) = writes_of (trace w) @ [0x0A # 0x0A # replicate 62 0]
       \<and> writes_of (trace (snd (GetPortState T Port1 w))) = writes_of (trace w) @ [0x21 # 0x21 # replicate 62 0]
       \<and> writes_of (trace (snd (GetPortState T Port2 w))) = writes_of (trace w) @ [0x22 # 0x22 # replicate 62 0]
       \<and> writes_of (trace (snd (GetPortState T Port3 w))) = writes_of (trace w) @ [0x23 # 0x23 # replicate 62 0]"
  by (intro conjI PortUp_writes [OF assms] PortDown_writes [OF assms] GetPortState_writes [OF assms]
        PortUp_cmd_simps PortDown_cmd_simps GetPortState_cmd_simps)

theorem command_table_witness:
  "writes_of (trace (snd (PortUp scripted AllPorts (opened [])))) = [0x1A # 0x1A # replicate 62 0]
   \<and> writes_of (trace (snd (PortDown scripted Port2 (opened [])))) = [0x02 # 0x02 # replicate 62 0]
   \<and> writes_of (trace (snd (GetPortState scripted Port3 (opened [])))) = [0x23 # 0x23 # replicate 62 0]"
  using command_table [of "opened []" "[]" scripted]
  by (simp add: opened_def)

subsection \<open>Received responses\<close>

text \<open>
  What the three port methods return once the write and the read of their exchange
  have both gone through, and how the concrete transports answer.
\<close>

lemma GetPortState_response:
  assumes "GetPortState_cmd port = Some c"
      and "device (handle w) = Some d"
      and "hid_Write T d (c # c # replicate 62 0) = (d1, n, None)"
      and "hid_Read T d1 64 = (d2, data, m, None)"
      and "resp = fill (replicate 64 0) data"
  shows "fst (GetPortState T port w) =
     (if resp ! 0 \<noteq> 0x01 then (PortOff, Some (CommandFailed (resp ! 0)))
      else if resp ! 1 = 0x01 \<or> resp ! 1 = 0x02 \<or> resp ! 1 = 0x03 then (PortOff, None)
      else if resp ! 1 = 0x11 \<or> resp ! 1 = 0x12 \<or> resp ! 1 = 0x13 then (PortOn, None)
      else (PortOff, Some (UnexpectedState (resp ! 1))))"
  using sendCommand_open [OF assms(2,3,4)] assms(1,5)
  by (simp add: GetPortState_def)

lemma PortUp_response:
  assumes "PortUp_cmd port = Some c"
      and "device (handle w) = Some d"
      and "hid_Write T d (c # c # replicate 62 0) = (d1, n, None)"
      and "hid_Read T d1 64 = (d2, data, m, None)"
      and "resp = fill (replicate 64 0) data"
  shows "fst (PortUp T port w) =
     (if resp ! 0 = 0x01 \<and> resp ! 1 = c then None
      else Some (UnexpectedResponse (resp ! 0) (resp ! 1)))"
  using sendCommand_open [OF assms(2,3,4)] assms(1,5)
  by (simp add: PortUp_def)

lemma PortDown_response:
  assumes "PortDown_cmd port = Some c"
      and "device (handle w) = Some d"
      and "hid_Write T d (c # c # replicate 62 0) = (d1, n, None)"
      and "hid_Read T d1 64 = (d2, data, m, None)"
      and "resp = fill (replicate 64 0) data"
  shows "fst (PortDown T port w) =
     (if resp ! 0 = 0x01 \<and> resp ! 1 = c then None
      else Some (UnexpectedResponse (resp ! 0) (resp ! 1)))"
  using sendCommand_open [OF assms(2,3,4)] assms(1,5)
  by (simp add: PortDown_def)

lemma GetPortState_cmd_valid:
  "port \<in> {Port1, Port2, Port3} \<longleftrightarrow> GetPortState_cmd port \<noteq> None"
  by (simp add: GetPortState_cmd_def)

lemma PortUp_cmd_valid:
  "port \<in> {Port1, Port2, Port3, AllPorts} \<longleftrightarrow> PortUp_cmd port \<noteq> None"
  by (simp add: PortUp_cmd_def)

lemma PortDown_cmd_valid:
  "port \<in> {Port1, Port2, Port3, AllPorts} \<longleftrightarrow> PortDown_cmd port \<noteq> None"
  by (simp add: PortDown_cmd_def)

lemma fill_two:
  "fill (replicate 64 0) [a, b] ! 0 = a"
  "fill (replicate 64 0) [a, b] ! 1 = b"
  "fill (replicate 64 0) [a, b] ! Suc 0 = b"
  by (simp_all add: fill_def)

lemma scripted_Write: "hid_Write scripted d buf = (d, int (length buf), None)"
  by (simp add: scripted_def)

lemma scripted_Read: "hid_Read scripted (r # rs) k = (rs, take k r, int (length (take k r)), None)"
  "hid_Read scripted [] k = ([], [], - 1, Some (HidError ''read failed''))"
  by (simp_all add: scripted_def)

lemma opened_device: "device (handle (opened d)) = Some d" "trace (opened d) = []"
  by (simp_all add: opened_def)

subsection \<open>Decoding a state query\<close>

text \<open>
  Claim C2. A GetPortState call on Port1, Port2 or Port3 whose write and read both
  report no error decodes the response buffer as follows: if byte 0 is not 0x01 the
  call fails with the command-failed error carrying byte 0; otherwise byte 1 equal to
  0x01, 0x02 or 0x03 gives PortOff, byte 1 equal to 0x11, 0x12 or 0x13 gives PortOn,
  and any other byte 1 fails with the unexpected-state error carrying byte 1.
\<close>

theorem query_decoding:
  assumes "port \<in> {Port1, Port2, Port3}"
      and "GetPortState_cmd port = Some c"
      and "device (handle w) = Some d"
      and "hid_Write T d (c # c # replicate 62 0) = (d1, n, None)"
      and "hid_Read T d1 64 = (d2, data, m, None)"
      and "resp = fill (replicate 64 0) data"
  shows "fst (GetPortState T port w) =
     (if resp ! 0 \<noteq> 0x01 then (PortOff, Some (CommandFailed (resp ! 0)))
      else if resp ! 1 \<in> {0x01, 0x02, 0x03} then (PortOff, None)
      else if resp ! 1 \<in> {0x11, 0x12, 0x13} then (PortOn, None)
      else (PortOff, Some (UnexpectedState (resp ! 1))))"
  using GetPortState_response [OF assms(2-6)] by simp

theorem query_decoding_witness:
  "Port2 \<in> {Port1, Port2, Port3} \<and> GetPortState_cmd Port2 = Some 0x22
   \<and> fst (GetPortState scripted Port2 (opened [[0x01, 0x12]])) = (PortOn, None)
   \<and> fst (GetPortState scripted Port2 (opened [[0x01, 0x02]])) = (PortOff, None)
   \<and> fst (GetPortState scripted Port2 (opened [[0x00, 0x12]])) = (PortOff, Some (CommandFailed 0x00))
   \<and> fst (GetPortState scripted Port2 (opened [[0x01, 0x1A]])) = (PortOff, Some (UnexpectedState 0x1A))"
proof -
  have p: "Port2 \<in> {Port1, Port2, Port3}"
    by simp
  have q: "fst (GetPortState scripted Port2 (opened [r])) =
     (if fill (replicate 64 0) (take 64 r) ! 0 \<noteq> 0x01
      then (PortOff, Some (CommandFailed (fill (replicate 64 0) (take 64 r) ! 0)))
      else if fill (replicate 64 0) (take 64 r) ! 1 \<in> {0x01, 0x02, 0x03} then (PortOff, None)
      else if fill (replicate 64 0) (take 64 r) ! 1 \<in> {0x11, 0x12, 0x13} then (PortOn, None)
      else (PortOff, Some (UnexpectedState (fill (replicate 64 0) (take 64 r) ! 1))))" for r
    by (rule query_decoding [OF p GetPortState_cmd_simps(2) opened_device(1) scripted_Write
             scripted_Read(1) refl])
  show ?thesis
    using q [of "[0x01, 0x12]"] q [of "[0x01, 0x02]"] q [of "[0x00, 0x12]"] q [of "[0x01, 0x1A]"]
    by (simp add: GetPortState_cmd_simps fill_two PortOff_def PortOn_def)
qed


text \<open>
  Claim C3, as stated, fails. A Port1 query answered with byte 0 = 0x01 and
  byte 1 = 0x21 does not succeed with PortOff: it returns the unexpected-state error
  for 0x21 (0x21 is the query command, not a state code).
\<close>

theorem query_0x21_counterexample:
  "fst (GetPortState scripted Port1 (opened [[0x01, 0x21]])) = (PortOff, Some (UnexpectedState 0x21))"
  using GetPortState_response [OF GetPortState_cmd_simps(1)
          opened_device(1) [of "[[0x01, 0x21 :: byte]]"] scripted_Write scripted_Read(1) refl]
  by (simp add: fill_two)

text \<open>
  Claim C3, amended. For a Port1 query whose response has byte 0 = 0x01: byte 1 = 0x21
  fails with the unexpected-state error (the value returned beside it is PortOff);
  byte 1 = 0x01 returns PortOff without error; byte 1 = 0x11 returns PortOn without
  error.
\<close>

theorem query_port1_codes:
  assumes "device (handle w) = Some d"
      and "hid_Write T d (0x21 # 0x21 # replicate 62 0) = (d1, n, None)"
      and "hid_Read T d1 64 = (d2, data, m, None)"
      and "resp = fill (replicate 64 0) data"
      and "resp ! 0 = 0x01"
  shows "(resp ! 1 = 0x21 \<longrightarrow>
            fst (GetPortState T Port1 w) = (PortOff, Some (UnexpectedState 0x21)))
       \<and> (resp ! 1 = 0x01 \<longrightarrow> fst (GetPortState T Port1 w) = (PortOff, None))
       \<and> (resp ! 1 = 0x11 \<longrightarrow> fst (GetPortState T Port1 w) = (PortOn, None))"
  using GetPortState_response [OF GetPortState_cmd_simps(1) assms(1-4)] assms(5)
  by simp

theorem query_port1_codes_witness:
  "fst (GetPortState scripted Port1 (opened [[0x01, 0x21]])) = (PortOff, Some (UnexpectedState 0x21))
   \<and> fst (GetPortState scripted Port1 (opened [[0x01, 0x01]])) = (PortOff, None)
   \<and> fst (GetPortState scripted Port1 (opened [[0x01, 0x11]])) = (PortOn, None)"
proof -
  note a = query_port1_codes [OF opened_device(1) [of "[[0x01, 0x21 :: byte]]"]
             scripted_Write scripted_Read(1) refl]
  note b = query_port1_codes [OF opened_device(1) [of "[[0x01, 0x01 :: byte]]"]
             scripted_Write scripted_Read(1) refl]
  note c = query_port1_codes [OF opened_device(1) [of "[[0x01, 0x11 :: byte]]"]
             scripted_Write scripted_Read(1) refl]
  show ?thesis
    using a b c by (simp add: fill_two)
qed

subsection \<open>Acknowledgement of PortUp and PortDown\<close>

text \<open>
  Claim C4. A PortUp or PortDown call that sent command byte \<open>c\<close> and received a
  response succeeds exactly when response byte 0 is 0x01 and byte 1 is \<open>c\<close>; in every
  other case it returns the unexpected-response error, which carries both response
  bytes.
\<close>

theorem actuation_ack:
  assumes "device (handle w) = Some d"
      and "hid_Write T d (c # c # replicate 62 0) = (d1, n, None)"
      and "hid_Read T d1 64 = (d2, data, m, None)"
      and "resp = fill (replicate 64 0) data"
  shows "(PortUp_cmd port = Some c \<longrightarrow>
            (fst (PortUp T port w) = None \<longleftrightarrow> resp ! 0 = 0x01 \<and> resp ! 1 = c)
          \<and> (fst (PortUp T port w) \<noteq> None \<longrightarrow>
               fst (PortUp T port w) = Some (UnexpectedResponse (resp ! 0) (resp ! 1))))
       \<and> (PortDown_cmd port = Some c \<longrightarrow>
            (fst (PortDown T port w) = None \<longleftrightarrow> resp ! 0 = 0x01 \<and> resp ! 1 = c)
          \<and> (fst (PortDown T port w) \<noteq> None \<longrightarrow>
               fst (PortDown T port w) = Some (UnexpectedResponse (resp ! 0) (resp ! 1))))"
proof (intro conjI impI)
  assume "PortUp_cmd port = Some c"
  note r = PortUp_response [OF this assms]
  show "fst (PortUp T port w) = None \<longleftrightarrow> resp ! 0 = 0x01 \<and> resp ! 1 = c"
    by (simp add: r)
  show "fst (PortUp T port w) = Some (UnexpectedResponse (resp ! 0) (resp ! 1))"
    if "fst (PortUp T port w) \<noteq> None"
    using that by (simp add: r split: if_splits)
next
  assume "PortDown_cmd port = Some c"
  note r = PortDown_response [OF this assms]
  show "fst (PortDown T port w) = None \<longleftrightarrow> resp ! 0 = 0x01 \<and> resp ! 1 = c"
    by (simp add: r)
  show "fst (PortDown T port w) = Some (UnexpectedResponse (resp ! 0) (resp ! 1))"
    if "fst (PortDown T port w) \<noteq> None"
    using that by (simp add: r split: if_splits)
qed

theorem actuation_ack_witness:
  "PortUp_cmd Port1 = Some 0x11 \<and> PortDown_cmd AllPorts = Some 0x0A
   \<and> fst (PortUp scripted Port1 (opened [[0x01, 0x11]])) = None
   \<and> fst (PortUp scripted Port1 (opened [[0x01, 0x01]])) = Some (UnexpectedResponse 0x01 0x01)
   \<and> fst (PortUp scripted Port1 (opened [[0x00, 0x11]])) = Some (UnexpectedResponse 0x00 0x11)
   \<and> fst (PortDown scripted AllPorts (opened [[0x01, 0x0A]])) = None
   \<and> fst (PortDown scripted AllPorts (opened [[0x01, 0x1A]])) = Some (UnexpectedResponse 0x01 0x1A)"
proof -
  note a = actuation_ack [OF opened_device(1) [of "[[0x01, 0x11 :: byte]]"]
             scripted_Write scripted_Read(1) refl, where c = "0x11" and port = Port1]
  note b = actuation_ack [OF opened_device(1) [of "[[0x01, 0x01 :: byte]]"]
             scripted_Write scripted_Read(1) refl, where c = "0x11" and port = Port1]
  note c = actuation_ack [OF opened_device(1) [of "[[0x00, 0x11 :: byte]]"]
             scripted_Write scripted_Read(1) refl, where c = "0x11" and port = Port1]
  note d = actuation_ack [OF opened_device(1) [of "[[0x01, 0x0A :: byte]]"]
             scripted_Write scripted_Read(1) refl, where c = "0x0A" and port = AllPorts]
  note e = actuation_ack [OF opened_device(1) [of "[[0x01, 0x1A :: byte]]"]
             scripted_Write scripted_Read(1) refl, where c = "0x0A" and port = AllPorts]
  show ?thesis
    using a b c d e by (simp add: fill_two PortUp_cmd_simps PortDown_cmd_simps)
qed

subsection \<open>The bulk query\<close>

lemma GetPortState_open:
  assumes "device (handle w) = Some d"
  shows "\<exists>d'. device (handle (snd (GetPortState T port w))) = Some d'"
proof (cases "GetPortState_cmd port")
  case None
  then show ?thesis
    using assms by (simp add: GetPortState_def)
next
  case (Some c)
  obtain d1 n werr where W: "hid_Write T d (c # c # replicate 62 0) = (d1, n, werr)"
    by (cases "hid_Write T d (c # c # replicate 62 0)") auto
  obtain d2 data m rerr where R: "hid_Read T d1 64 = (d2, data, m, rerr)"
    by (cases "hid_Read T d1 64") auto
  show ?thesis
    by (simp add: GetPortState_def Some sendCommand_open [OF assms W R] set_device_def
             split: option.splits)
qed

lemma GetAllPortsState_unfold:
  "GetAllPortsState T w =
     (case GetPortState T Port1 w of
        ((s1, Some e), w1) \<Rightarrow> ((None, Some (GetStateFailed Port1 e)), w1)
      | ((s1, None), w1) \<Rightarrow>
          (case GetPortState T Port2 w1 of
             ((s2, Some e), w2) \<Rightarrow> ((None, Some (GetStateFailed Port2 e)), w2)
           | ((s2, None), w2) \<Rightarrow>
               (case GetPortState T Port3 w2 of
                  ((s3, Some e), w3) \<Rightarrow> ((None, Some (GetStateFailed Port3 e)), w3)
                | ((s3, None), w3) \<Rightarrow>
                    ((Some [Port1 \<mapsto> s1, Port2 \<mapsto> s2, Port3 \<mapsto> s3], None), w3))))"
  by (simp add: GetAllPortsState_def split: prod.splits option.splits)

lemma dom_three: "dom [Port1 \<mapsto> a, Port2 \<mapsto> b, Port3 \<mapsto> c] = {Port1, Port2, Port3}"
  by auto

lemma GetAllPortsState_result:
  "(\<forall>m. fst (fst (GetAllPortsState T w)) = Some m \<longrightarrow>
          dom m = {Port1, Port2, Port3} \<and> snd (fst (GetAllPortsState T w)) = None)
   \<and> (snd (fst (GetAllPortsState T w)) \<noteq> None \<longrightarrow> fst (fst (GetAllPortsState T w)) = None)
   \<and> (snd (fst (GetAllPortsState T w)) = None \<longrightarrow> fst (fst (GetAllPortsState T w)) \<noteq> None)"
proof -
  obtain s1 e1 w1 where r1: "GetPortState T Port1 w = ((s1, e1), w1)"
    by (metis surj_pair)
  obtain s2 e2 w2 where r2: "GetPortState T Port2 w1 = ((s2, e2), w2)"
    by (metis surj_pair)
  obtain s3 e3 w3 where r3: "GetPortState T Port3 w2 = ((s3, e3), w3)"
    by (metis surj_pair)
  show ?thesis
    by (cases e1; cases e2; cases e3)
       (simp_all only: GetAllPortsState_unfold r1 r2 r3 prod.case option.case fst_conv snd_conv
          option.inject option.distinct dom_three simp_thms HOL.all_simps)
qed

lemma GetAllPortsState_writes:
  assumes "device (handle w) = Some d"
  shows "(\<exists>k\<in>{1, 2, 3}. writes_of (trace (snd (GetAllPortsState T w))) =
            writes_of (trace w) @
              take k [0x21 # 0x21 # replicate 62 0, 0x22 # 0x22 # replicate 62 0,
                      0x23 # 0x23 # replicate 62 0])
       \<and> (snd (fst (GetAllPortsState T w)) = None \<longrightarrow>
            writes_of (trace (snd (GetAllPortsState T w))) =
              writes_of (trace w) @
                [0x21 # 0x21 # replicate 62 0, 0x22 # 0x22 # replicate 62 0,
                 0x23 # 0x23 # replicate 62 0])"
proof -
  obtain s1 e1 w1 where r1: "GetPortState T Port1 w = ((s1, e1), w1)"
    by (metis surj_pair)
  have t1: "writes_of (trace w1) = writes_of (trace w) @ [0x21 # 0x21 # replicate 62 0]"
    using GetPortState_writes [OF assms GetPortState_cmd_simps(1), of T] by (simp add: r1)
  obtain d1 where o1: "device (handle w1) = Some d1"
    using GetPortState_open [OF assms, of T Port1] by (auto simp: r1)
  obtain s2 e2 w2 where r2: "GetPortState T Port2 w1 = ((s2, e2), w2)"
    by (metis surj_pair)
  have t2: "writes_of (trace w2) = writes_of (trace w1) @ [0x22 # 0x22 # replicate 62 0]"
    using GetPortState_writes [OF o1 GetPortState_cmd_simps(2), of T] by (simp add: r2)
  obtain d2 where o2: "device (handle w2) = Some d2"
    using GetPortState_open [OF o1, of T Port2] by (auto simp: r2)
  obtain s3 e3 w3 where r3: "GetPortState T Port3 w2 = ((s3, e3), w3)"
    by (metis surj_pair)
  have t3: "writes_of (trace w3) = writes_of (trace w2) @ [0x23 # 0x23 # replicate 62 0]"
    using GetPortState_writes [OF o2 GetPortState_cmd_simps(3), of T] by (simp add: r3)
  show ?thesis
    by (cases e1; cases e2; cases e3)
       (simp_all add: GetAllPortsState_unfold r1 r2 r3 t1 t2 t3)
qed

text \<open>
  Claim C5. GetAllPortsState calls GetPortState for Port1, Port2 and Port3 in that
  order, each call starting from the state the previous one left. The first call that
  returns an error ends the operation: the result is the nil map with that error
  wrapped, the states fetched before are dropped and the later ports are not queried.
  When all three calls succeed the result is the map with exactly the keys Port1, Port2,
  Port3 and no error. A map is returned exactly when no error is, so a partial map is
  never returned. On an open handle the reports written are an initial part of
  0x21, 0x22, 0x23, all three when the operation succeeds.
\<close>

theorem all_ports_state:
  "GetAllPortsState T w =
     (case GetPortState T Port1 w of
        ((s1, Some e), w1) \<Rightarrow> ((None, Some (GetStateFailed Port1 e)), w1)
      | ((s1, None), w1) \<Rightarrow>
          (case GetPortState T Port2 w1 of
             ((s2, Some e), w2) \<Rightarrow> ((None, Some (GetStateFailed Port2 e)), w2)
           | ((s2, None), w2) \<Rightarrow>
               (case GetPortState T Port3 w2 of
                  ((s3, Some e), w3) \<Rightarrow> ((None, Some (GetStateFailed Port3 e)), w3)
                | ((s3, None), w3) \<Rightarrow>
                    ((Some [Port1 \<mapsto> s1, Port2 \<mapsto> s2, Port3 \<mapsto> s3], None), w3))))
   \<and> (\<forall>m. fst (fst (GetAllPortsState T w)) = Some m \<longrightarrow>
          dom m = {Port1, Port2, Port3} \<and> snd (fst (GetAllPortsState T w)) = None)
   \<and> (snd (fst (GetAllPortsState T w)) \<noteq> None \<longrightarrow> fst (fst (GetAllPortsState T w)) = None)
   \<and> (snd (fst (GetAllPortsState T w)) = None \<longrightarrow> fst (fst (GetAllPortsState T w)) \<noteq> None)
   \<and> (\<forall>d. device (handle w) = Some d \<longrightarrow>
        (\<exists>k\<in>{1, 2, 3}. writes_of (trace (snd (GetAllPortsState T w))) =
            writes_of (trace w) @
              take k [0x21 # 0x21 # replicate 62 0, 0x22 # 0x22 # replicate 62 0,
                      0x23 # 0x23 # replicate 62 0])
        \<and> (snd (fst (GetAllPortsState T w)) = None \<longrightarrow>
            writes_of (trace (snd (GetAllPortsState T w))) =
              writes_of (trace w) @
                [0x21 # 0x21 # replicate 62 0, 0x22 # 0x22 # replicate 62 0,
                 0x23 # 0x23 # replicate 62 0]))"
  using GetAllPortsState_unfold [of T w] GetAllPortsState_result [of T w]
        GetAllPortsState_writes [of w _ T]
  by blast

lemma GetPortState_full:
  assumes "GetPortState_cmd port = Some c"
      and "device (handle w) = Some d"
      and "hid_Write T d (c # c # replicate 62 0) = (d1, n, werr)"
      and "hid_Read T d1 64 = (d2, data, m, rerr)"
  shows "GetPortState T port w =
     (case werr of
        Some e \<Rightarrow> ((PortOff, Some (SendFailed e)),
                   set_device (Some d1) (HidWrite (c # c # replicate 62 0)) w)
      | None \<Rightarrow>
         (case rerr of
            Some e \<Rightarrow> (PortOff, Some (ReadFailed e))
          | None \<Rightarrow>
             (if fill (replicate 64 0) data ! 0 \<noteq> 0x01
              then (PortOff, Some (CommandFailed (fill (replicate 64 0) data ! 0)))
              else if fill (replicate 64 0) data ! 1 = 0x01 \<or> fill (replicate 64 0) data ! 1 = 0x02
                      \<or> fill (replicate 64 0) data ! 1 = 0x03
              then (PortOff, None)
              else if fill (replicate 64 0) data ! 1 = 0x11 \<or> fill (replicate 64 0) data ! 1 = 0x12
                      \<or> fill (replicate 64 0) data ! 1 = 0x13
              then (PortOn, None)
              else (PortOff, Some (UnexpectedState (fill (replicate 64 0) data ! 1)))),
          set_device (Some d2) (HidRead 64)
            (set_device (Some d1) (HidWrite (c # c # replicate 62 0)) w)))"
  using sendCommand_open [OF assms(2,3,4)] assms(1)
  by (simp add: GetPortState_def split: option.splits)

lemma set_device_simps:
  "device (handle (set_device dv c w)) = dv"
  "trace (set_device dv c w) = trace w @ [c]"
  "serial (handle (set_device dv c w)) = serial (handle w)"
  by (simp_all add: set_device_def)

lemma GetPortState_scripted:
  assumes "GetPortState_cmd port = Some c" and "device (handle w) = Some ([a, b] # rs)"
  shows "GetPortState scripted port w =
     (if a \<noteq> 0x01 then (PortOff, Some (CommandFailed a))
      else if b = 0x01 \<or> b = 0x02 \<or> b = 0x03 then (PortOff, None)
      else if b = 0x11 \<or> b = 0x12 \<or> b = 0x13 then (PortOn, None)
      else (PortOff, Some (UnexpectedState b)),
      set_device (Some rs) (HidRead 64)
        (set_device (Some ([a, b] # rs)) (HidWrite (c # c # replicate 62 0)) w))"
  using GetPortState_full [OF assms scripted_Write scripted_Read(1)]
  by (simp add: fill_two)

lemma GetPortState_scripted_empty:
  assumes "GetPortState_cmd port = Some c" and "device (handle w) = Some []"
  shows "GetPortState scripted port w =
     ((PortOff, Some (ReadFailed (HidError ''read failed''))),
      set_device (Some []) (HidRead 64)
        (set_device (Some []) (HidWrite (c # c # replicate 62 0)) w))"
  using GetPortState_full [OF assms scripted_Write scripted_Read(2)]
  by simp

theorem all_ports_state_witness:
  "fst (GetAllPortsState scripted (opened [[0x01, 0x11], [0x01, 0x02], [0x01, 0x13]])) =
     (Some [Port1 \<mapsto> PortOn, Port2 \<mapsto> PortOff, Port3 \<mapsto> PortOn], None)
   \<and> fst (GetAllPortsState scripted (opened [[0x01, 0x11]])) =
     (None, Some (GetStateFailed Port2 (ReadFailed (HidError ''read failed''))))
   \<and> writes_of (trace (snd (GetAllPortsState scripted (opened [[0x01, 0x11]])))) =
       [0x21 # 0x21 # replicate 62 0, 0x22 # 0x22 # replicate 62 0]"
proof -
  define a0 :: "byte list list world" where "a0 = opened [[0x01, 0x11], [0x01, 0x02], [0x01, 0x13]]"
  define a1 where "a1 = set_device (Some [[0x01, 0x02], [0x01, 0x13]]) (HidRead 64)
      (set_device (Some [[0x01, 0x11], [0x01, 0x02], [0x01, 0x13]])
         (HidWrite (0x21 # 0x21 # replicate 62 0)) a0)"
  define a2 where "a2 = set_device (Some [[0x01, 0x13]]) (HidRead 64)
      (set_device (Some [[0x01, 0x02], [0x01, 0x13]]) (HidWrite (0x22 # 0x22 # replicate 62 0)) a1)"
  define a3 where "a3 = set_device (Some []) (HidRead 64)
      (set_device (Some [[0x01, 0x13]]) (HidWrite (0x23 # 0x23 # replicate 62 0)) a2)"
  have d0: "device (handle a0) = Some [[0x01, 0x11], [0x01, 0x02], [0x01, 0x13]]"
    by (simp add: a0_def opened_device)
  have d1: "device (handle a1) = Some [[0x01, 0x02], [0x01, 0x13]]"
    by (simp add: a1_def set_device_simps)
  have d2: "device (handle a2) = Some [[0x01, 0x13]]"
    by (simp add: a2_def set_device_simps)
  have s1: "GetPortState scripted Port1 a0 = ((PortOn, None), a1)"
    using GetPortState_scripted [OF GetPortState_cmd_simps(1) d0] by (simp add: a1_def)
  have s2: "GetPortState scripted Port2 a1 = ((PortOff, None), a2)"
    using GetPortState_scripted [OF GetPortState_cmd_simps(2) d1] by (simp add: a2_def)
  have s3: "GetPortState scripted Port3 a2 = ((PortOn, None), a3)"
    using GetPortState_scripted [OF GetPortState_cmd_simps(3) d2] by (simp add: a3_def)
  have A: "fst (GetAllPortsState scripted a0) =
     (Some [Port1 \<mapsto> PortOn, Port2 \<mapsto> PortOff, Port3 \<mapsto> PortOn], None)"
    using all_ports_state [of scripted a0, THEN conjunct1] by (simp add: s1 s2 s3)
  define b0 :: "byte list list world" where "b0 = opened [[0x01, 0x11]]"
  define b1 where "b1 = set_device (Some []) (HidRead 64)
      (set_device (Some [[0x01, 0x11]]) (HidWrite (0x21 # 0x21 # replicate 62 0)) b0)"
  define b2 where "b2 = set_device (Some []) (HidRead 64)
      (set_device (Some []) (HidWrite (0x22 # 0x22 # replicate 62 0)) b1)"
  have e0: "device (handle b0) = Some [[0x01, 0x11]]"
    by (simp add: b0_def opened_device)
  have e1: "device (handle b1) = Some []"
    by (simp add: b1_def set_device_simps)
  have t1: "GetPortState scripted Port1 b0 = ((PortOn, None), b1)"
    using GetPortState_scripted [OF GetPortState_cmd_simps(1) e0] by (simp add: b1_def)
  have t2: "GetPortState scripted Port2 b1 =
              ((PortOff, Some (ReadFailed (HidError ''read failed''))), b2)"
    using GetPortState_scripted_empty [OF GetPortState_cmd_simps(2) e1] by (simp add: b2_def)
  have B: "GetAllPortsState scripted b0 =
     ((None, Some (GetStateFailed Port2 (ReadFailed (HidError ''read failed'')))), b2)"
    using all_ports_state [of scripted b0, THEN conjunct1] by (simp add: t1 t2)
  have C: "writes_of (trace b2) = [0x21 # 0x21 # replicate 62 0, 0x22 # 0x22 # replicate 62 0]"
    by (simp add: b2_def b1_def b0_def set_device_simps opened_device writes_of_append)
  show ?thesis
    using A B C by (simp add: a0_def b0_def)
qed

subsection \<open>Closed handles\<close>

lemma Close_closes: "device (handle (snd (Close T w))) = None"
  by (simp add: Close_def set_device_simps Let_def split: option.splits)

lemma GetPortState_closed:
  assumes "device (handle w) = None"
  shows "GetPortState T port w =
           ((PortOff, Some (if port \<in> {Port1, Port2, Port3} then NotConnected
                            else InvalidStatePort port)), w)"
  by (simp add: GetPortState_def GetPortState_cmd_def sendCommand_closed [OF assms])

lemma PortUp_closed:
  assumes "device (handle w) = None"
  shows "PortUp T port w =
           (Some (if port \<in> {Port1, Port2, Port3, AllPorts} then NotConnected
                  else InvalidPort port), w)"
  by (simp add: PortUp_def PortUp_cmd_def sendCommand_closed [OF assms])

lemma PortDown_closed:
  assumes "device (handle w) = None"
  shows "PortDown T port w =
           (Some (if port \<in> {Port1, Port2, Port3, AllPorts} then NotConnected
                  else InvalidPort port), w)"
  by (simp add: PortDown_def PortDown_cmd_def sendCommand_closed [OF assms])

text \<open>
  Claim C6, as stated, fails. After Close, a PortUp call with a port outside the
  table does not return the not-connected error: the port is checked first, so the call
  returns the invalid-port error (still without any transport call).
\<close>

theorem closed_invalid_port_counterexample:
  "PortUp scripted 99 (snd (Close scripted (opened []))) =
     (Some (InvalidPort 99), snd (Close scripted (opened [])))"
  using PortUp_closed [OF Close_closes [of scripted "opened []"], of scripted 99]
  by (simp add: Port1_def Port2_def Port3_def AllPorts_def)

text \<open>
  Claim C6, amended. On a handle whose device is nil, which is what Close leaves
  behind, Close is a no-op that returns no error, and no method reaches the transport:
  the state, with its record of transport calls, is returned unchanged. GetSerial,
  AllPortsUp and AllPortsDown fail with the not-connected error; PortUp, PortDown and
  SetPortState do so for Port1, Port2, Port3 and AllPorts, GetPortState for Port1,
  Port2 and Port3; GetAllPortsState fails with the not-connected error of its first
  query, wrapped. A port outside these sets gets the invalid-port error instead.
\<close>

theorem closed_handle:
  assumes "device (handle w) = None"
  shows "Close T w = (None, w)
       \<and> device (handle (snd (Close T w0))) = None
       \<and> GetSerial T w = (('''', Some NotConnected), w)
       \<and> (port \<in> {Port1, Port2, Port3, AllPorts} \<longrightarrow>
            PortUp T port w = (Some NotConnected, w)
          \<and> PortDown T port w = (Some NotConnected, w)
          \<and> SetPortState T port state w = (Some NotConnected, w))
       \<and> (port \<in> {Port1, Port2, Port3} \<longrightarrow>
            GetPortState T port w = ((PortOff, Some NotConnected), w))
       \<and> AllPortsUp T w = (Some NotConnected, w)
       \<and> AllPortsDown T w = (Some NotConnected, w)
       \<and> GetAllPortsState T w = ((None, Some (GetStateFailed Port1 NotConnected)), w)
       \<and> (port \<notin> {Port1, Port2, Port3, AllPorts} \<longrightarrow>
            PortUp T port w = (Some (InvalidPort port), w)
          \<and> PortDown T port w = (Some (InvalidPort port), w)
          \<and> SetPortState T port state w = (Some (InvalidPort port), w))
       \<and> (port \<notin> {Port1, Port2, Port3} \<longrightarrow>
            GetPortState T port w = ((PortOff, Some (InvalidStatePort port)), w))"
proof (intro conjI impI)
  show "Close T w = (None, w)"
    using assms by (simp add: Close_def)
  show "device (handle (snd (Close T w0))) = None"
    by (rule Close_closes)
  show "GetSerial T w = (('''', Some NotConnected), w)"
    using assms by (simp add: GetSerial_def)
  show "AllPortsUp T w = (Some NotConnected, w)"
    by (simp add: AllPortsUp_def PortUp_closed [OF assms])
  show "AllPortsDown T w = (Some NotConnected, w)"
    by (simp add: AllPortsDown_def PortDown_closed [OF assms])
  show "GetAllPortsState T w = ((None, Some (GetStateFailed Port1 NotConnected)), w)"
    by (simp add: GetAllPortsState_def GetPortState_closed [OF assms])
next
  assume "port \<in> {Port1, Port2, Port3, AllPorts}"
  then show "PortUp T port w = (Some NotConnected, w)"
    "PortDown T port w = (Some NotConnected, w)"
    "SetPortState T port state w = (Some NotConnected, w)"
    by (simp_all add: SetPortState_def PortUp_closed [OF assms] PortDown_closed [OF assms])
next
  assume "port \<in> {Port1, Port2, Port3}"
  then show "GetPortState T port w = ((PortOff, Some NotConnected), w)"
    by (simp add: GetPortState_closed [OF assms])
next
  assume "port \<notin> {Port1, Port2, Port3, AllPorts}"
  then show "PortUp T port w = (Some (InvalidPort port), w)"
    "PortDown T port w = (Some (InvalidPort port), w)"
    "SetPortState T port state w = (Some (InvalidPort port), w)"
    by (simp_all add: SetPortState_def PortUp_closed [OF assms] PortDown_closed [OF assms])
next
  assume "port \<notin> {Port1, Port2, Port3}"
  then show "GetPortState T port w = ((PortOff, Some (InvalidStatePort port)), w)"
    by (simp add: GetPortState_closed [OF assms])
qed

theorem closed_handle_witness:
  "device (handle (snd (Close scripted (opened [])))) = None
   \<and> trace (snd (Close scripted (opened []))) = [HidClose]
   \<and> Close scripted (snd (Close scripted (opened []))) = (None, snd (Close scripted (opened [])))
   \<and> GetSerial scripted (snd (Close scripted (opened []))) =
       (('''', Some NotConnected), snd (Close scripted (opened [])))
   \<and> PortUp scripted Port1 (snd (Close scripted (opened []))) =
       (Some NotConnected, snd (Close scripted (opened [])))
   \<and> PortDown scripted Port1 (snd (Close scripted (opened []))) =
       (Some NotConnected, snd (Close scripted (opened [])))
   \<and> GetPortState scripted Port1 (snd (Close scripted (opened []))) =
       ((PortOff, Some NotConnected), snd (Close scripted (opened [])))
   \<and> GetAllPortsState scripted (snd (Close scripted (opened []))) =
       ((None, Some (GetStateFailed Port1 NotConnected)), snd (Close scripted (opened [])))"
proof -
  have t: "trace (snd (Close scripted (opened []))) = [HidClose]"
    by (simp add: Close_def opened_def set_device_def)
  show ?thesis
    using closed_handle [OF Close_closes [of scripted "opened []"], where port = Port1
            and T = scripted]
    by (simp add: t)
qed

subsection \<open>Invalid ports\<close>

text \<open>
  Claim C7. PortUp and PortDown with a port other than Port1, Port2, Port3 and
  AllPorts, and GetPortState with a port other than Port1, Port2 and Port3 (AllPorts
  included), return the invalid-port error and leave the state unchanged, whatever the
  transport and whether or not the handle is open: nothing is written or read.
\<close>

theorem invalid_port:
  "(port \<notin> {Port1, Port2, Port3, AllPorts} \<longrightarrow>
      PortUp T port w = (Some (InvalidPort port), w)
    \<and> PortDown T port w = (Some (InvalidPort port), w))
   \<and> (port \<notin> {Port1, Port2, Port3} \<longrightarrow>
      GetPortState T port w = ((PortOff, Some (InvalidStatePort port)), w))"
  by (simp add: PortUp_def PortUp_cmd_def PortDown_def PortDown_cmd_def
        GetPortState_def GetPortState_cmd_def)

theorem invalid_port_witness:
  "4 \<notin> {Port1, Port2, Port3, AllPorts} \<and> AllPorts \<notin> {Port1, Port2, Port3}
   \<and> PortUp scripted 4 (opened [[0x01, 0x14]]) = (Some (InvalidPort 4), opened [[0x01, 0x14]])
   \<and> PortDown scripted 4 (opened [[0x01, 0x04]]) = (Some (InvalidPort 4), opened [[0x01, 0x04]])
   \<and> GetPortState scripted AllPorts (opened [[0x01, 0x1A]]) =
       ((PortOff, Some (InvalidStatePort AllPorts)), opened [[0x01, 0x1A]])
   \<and> trace (opened [[0x01, 0x1A :: byte]]) = []"
  using invalid_port [of 4 scripted "opened [[0x01, 0x14]]"]
        invalid_port [of 4 scripted "opened [[0x01, 0x04]]"]
        invalid_port [of AllPorts scripted "opened [[0x01, 0x1A]]"]
  by (simp add: Port1_def Port2_def Port3_def AllPorts_def opened_device)

subsection \<open>The shape of an exchange\<close>

lemma write_fails_Write: "hid_Write write_fails d buf = (d, - 1, Some (HidError ''write failed''))"
  by (simp add: write_fails_def)

lemma write_fails_Read: "hid_Read write_fails d k = (d, [], 0, None)"
  by (simp add: write_fails_def)

text \<open>
  Claim C8, as stated, fails. When the write returns an error, sendCommand returns
  that error at once: the transport sees the one write and no read.
\<close>

theorem write_failure_counterexample:
  "fst (sendCommand write_fails 0x11 0x11 (opened ())) =
     ([], Some (SendFailed (HidError ''write failed'')))
   \<and> trace (snd (sendCommand write_fails 0x11 0x11 (opened ()))) =
     [HidWrite (0x11 # 0x11 # replicate 62 0)]"
  using sendCommand_open [OF opened_device(1) write_fails_Write write_fails_Read,
          where cmd = "0x11" and ctrl = "0x11"]
  by (simp add: set_device_simps opened_device)

text \<open>
  Claim C8, amended. On an open handle sendCommand builds the 64-byte report whose
  byte 0 is the command, byte 1 the control byte and every other byte zero, and writes
  it once. If that write reports an error the call returns it and reads nothing;
  otherwise it reads once into a 64-byte buffer and returns that buffer, or the read's
  error. PortUp, PortDown and GetPortState pass the command byte as control byte.
\<close>

theorem exchange_shape:
  assumes "device (handle w) = Some d"
      and "hid_Write T d (cmd # ctrl # replicate 62 0) = (d1, n, werr)"
      and "hid_Read T d1 64 = (d2, data, m, rerr)"
  shows "length (cmd # ctrl # replicate 62 (0 :: byte)) = ReportSize
       \<and> trace (snd (sendCommand T cmd ctrl w)) =
           trace w @ (if werr = None
                      then [HidWrite (cmd # ctrl # replicate 62 0), HidRead ReportSize]
                      else [HidWrite (cmd # ctrl # replicate 62 0)])
       \<and> fst (sendCommand T cmd ctrl w) =
           (case werr of
              Some e \<Rightarrow> ([], Some (SendFailed e))
            | None \<Rightarrow>
               (case rerr of
                  Some e \<Rightarrow> ([], Some (ReadFailed e))
                | None \<Rightarrow> (fill (replicate ReportSize 0) data, None)))
       \<and> length (fill (replicate ReportSize 0) data) = ReportSize
       \<and> (\<forall>c. PortUp_cmd port = Some c \<longrightarrow>
             writes_of (trace (snd (PortUp T port w))) =
               writes_of (trace w) @ [c # c # replicate 62 0])
       \<and> (\<forall>c. PortDown_cmd port = Some c \<longrightarrow>
             writes_of (trace (snd (PortDown T port w))) =
               writes_of (trace w) @ [c # c # replicate 62 0])
       \<and> (\<forall>c. GetPortState_cmd port = Some c \<longrightarrow>
             writes_of (trace (snd (GetPortState T port w))) =
               writes_of (trace w) @ [c # c # replicate 62 0])"
proof (intro conjI allI impI)
  show "length (cmd # ctrl # replicate 62 (0 :: byte)) = ReportSize"
    by (simp add: ReportSize_def)
  show "trace (snd (sendCommand T cmd ctrl w)) =
           trace w @ (if werr = None
                      then [HidWrite (cmd # ctrl # replicate 62 0), HidRead ReportSize]
                      else [HidWrite (cmd # ctrl # replicate 62 0)])"
    by (simp add: sendCommand_open [OF assms] set_device_simps ReportSize_def
          split: option.splits)
  show "fst (sendCommand T cmd ctrl w) =
           (case werr of
              Some e \<Rightarrow> ([], Some (SendFailed e))
            | None \<Rightarrow>
               (case rerr of
                  Some e \<Rightarrow> ([], Some (ReadFailed e))
                | None \<Rightarrow> (fill (replicate ReportSize 0) data, None)))"
    by (simp add: sendCommand_open [OF assms] ReportSize_def split: option.splits)
  show "length (fill (replicate ReportSize 0) data) = ReportSize"
    by simp
next
  fix c
  assume "PortUp_cmd port = Some c"
  then show "writes_of (trace (snd (PortUp T port w))) =
               writes_of (trace w) @ [c # c # replicate 62 0]"
    by (rule PortUp_writes [OF assms(1)])
next
  fix c
  assume "PortDown_cmd port = Some c"
  then show "writes_of (trace (snd (PortDown T port w))) =
               writes_of (trace w) @ [c # c # replicate 62 0]"
    by (rule PortDown_writes [OF assms(1)])
next
  fix c
  assume "GetPortState_cmd port = Some c"
  then show "writes_of (trace (snd (GetPortState T port w))) =
               writes_of (trace w) @ [c # c # replicate 62 0]"
    by (rule GetPortState_writes [OF assms(1)])
qed

lemma fill_two_list: "fill (replicate 64 0) [a, b] = a # b # replicate 62 0"
  by (simp add: fill_def)

theorem exchange_shape_witness:
  "trace (snd (sendCommand scripted 0x11 0x11 (opened [[0x01, 0x11]]))) =
     [HidWrite (0x11 # 0x11 # replicate 62 0), HidRead 64]
   \<and> fst (sendCommand scripted 0x11 0x11 (opened [[0x01, 0x11]])) =
     (0x01 # 0x11 # replicate 62 0, None)
   \<and> trace (snd (sendCommand scripted 0x21 0x21 (opened []))) =
     [HidWrite (0x21 # 0x21 # replicate 62 0), HidRead 64]
   \<and> fst (sendCommand scripted 0x21 0x21 (opened [])) =
     ([], Some (ReadFailed (HidError ''read failed'')))
   \<and> trace (snd (sendCommand write_fails 0x01 0x01 (opened ()))) =
     [HidWrite (0x01 # 0x01 # replicate 62 0)]"
proof -
  note a = exchange_shape [OF opened_device(1) [of "[[0x01, 0x11 :: byte]]"]
             scripted_Write scripted_Read(1), where cmd = "0x11" and ctrl = "0x11"]
  note b = exchange_shape [OF opened_device(1) [of "[] :: byte list list"]
             scripted_Write scripted_Read(2), where cmd = "0x21" and ctrl = "0x21"]
  note c = exchange_shape [OF opened_device(1) [of "()"]
             write_fails_Write write_fails_Read, where cmd = "0x01" and ctrl = "0x01"]
  show ?thesis
    using a [THEN conjunct2, THEN conjunct1] a [THEN conjunct2, THEN conjunct2, THEN conjunct1]
          b [THEN conjunct2, THEN conjunct1] b [THEN conjunct2, THEN conjunct2, THEN conjunct1]
          c [THEN conjunct2, THEN conjunct1]
    by (simp add: opened_device ReportSize_def fill_two_list)
qed

subsection \<open>The state returned with an error\<close>

text \<open>
  Claim C9. Whenever GetPortState returns an error, the PortState returned with it
  is PortOff.
\<close>

theorem error_state_is_off:
  "snd (fst (GetPortState T port w)) \<noteq> None \<longrightarrow> fst (fst (GetPortState T port w)) = PortOff"
  by (simp add: GetPortState_def split: option.splits prod.splits)

theorem error_state_is_off_witness:
  "fst (GetPortState scripted 7 (opened [])) = (PortOff, Some (InvalidStatePort 7))
   \<and> fst (GetPortState scripted Port1 (snd (Close scripted (opened [])))) =
       (PortOff, Some NotConnected)
   \<and> fst (GetPortState scripted Port1 (opened [])) =
       (PortOff, Some (ReadFailed (HidError ''read failed'')))
   \<and> fst (GetPortState write_fails Port1 (opened ())) =
       (PortOff, Some (SendFailed (HidError ''write failed'')))
   \<and> fst (GetPortState scripted Port1 (opened [[0x00, 0x11]])) =
       (PortOff, Some (CommandFailed 0x00))
   \<and> fst (GetPortState scripted Port1 (opened [[0x01, 0x21]])) =
       (PortOff, Some (UnexpectedState 0x21))"
proof -
  have e1: "snd (fst (GetPortState scripted 7 (opened []))) = Some (InvalidStatePort 7)"
    by (simp add: GetPortState_def GetPortState_cmd_def Port1_def Port2_def Port3_def)
  have e2: "snd (fst (GetPortState scripted Port1 (snd (Close scripted (opened []))))) =
              Some NotConnected"
    by (simp add: GetPortState_closed [OF Close_closes])
  have e3: "snd (fst (GetPortState scripted Port1 (opened []))) =
              Some (ReadFailed (HidError ''read failed''))"
    by (simp add: GetPortState_scripted_empty [OF GetPortState_cmd_simps(1) opened_device(1)])
  have e4: "snd (fst (GetPortState write_fails Port1 (opened ()))) =
              Some (SendFailed (HidError ''write failed''))"
    by (simp add: GetPortState_full [OF GetPortState_cmd_simps(1) opened_device(1)
                    write_fails_Write write_fails_Read])
  have e5: "snd (fst (GetPortState scripted Port1 (opened [[0x00, 0x11]]))) =
              Some (CommandFailed 0x00)"
    by (simp add: GetPortState_scripted [OF GetPortState_cmd_simps(1) opened_device(1)])
  have e6: "snd (fst (GetPortState scripted Port1 (opened [[0x01, 0x21]]))) =
              Some (UnexpectedState 0x21)"
    by (simp add: GetPortState_scripted [OF GetPortState_cmd_simps(1) opened_device(1)])
  show ?thesis
    using error_state_is_off [of scripted 7 "opened []"]
          error_state_is_off [of scripted Port1 "snd (Close scripted (opened []))"]
          error_state_is_off [of scripted Port1 "opened []"]
          error_state_is_off [of write_fails Port1 "opened ()"]
          error_state_is_off [of scripted Port1 "opened [[0x00, 0x11]]"]
          error_state_is_off [of scripted Port1 "opened [[0x01, 0x21]]"]
    by (simp add: e1 e2 e3 e4 e5 e6 prod_eq_iff)
qed

subsection \<open>Byte counts\<close>

lemma recount_Write:
  "hid_Write (recount wn rn T) d buf =
     (case hid_Write T d buf of (d1, n, e) \<Rightarrow> (d1, wn d buf, e))"
  by (simp add: recount_def)

lemma recount_Read:
  "hid_Read (recount wn rn T) d k =
     (case hid_Read T d k of (d1, data, n, e) \<Rightarrow> (d1, data, rn d k, e))"
  by (simp add: recount_def)

lemma sendCommand_recount:
  "sendCommand (recount wn rn T) cmd ctrl w = sendCommand T cmd ctrl w"
  by (simp add: sendCommand_def recount_Write recount_Read Let_def
        split: option.splits prod.splits)

text \<open>
  Claim C10. The byte counts that Write and Read return do not matter: a transport
  that reports other counts, for instance short ones, gives the same result and the
  same final state for sendCommand, PortUp, PortDown and GetPortState. On an open
  handle the exchange succeeds exactly when neither the write nor the read returns an
  error, and then its result is the whole 64-byte buffer.
\<close>

theorem counts_ignored:
  "sendCommand (recount wn rn T) cmd ctrl w = sendCommand T cmd ctrl w
   \<and> PortUp (recount wn rn T) port w = PortUp T port w
   \<and> PortDown (recount wn rn T) port w = PortDown T port w
   \<and> GetPortState (recount wn rn T) port w = GetPortState T port w
   \<and> (device (handle w) = Some d \<longrightarrow>
      hid_Write T d (cmd # ctrl # replicate 62 0) = (d1, n, werr) \<longrightarrow>
      hid_Read T d1 64 = (d2, data, m, rerr) \<longrightarrow>
        (snd (fst (sendCommand T cmd ctrl w)) = None \<longleftrightarrow> werr = None \<and> rerr = None)
      \<and> (werr = None \<and> rerr = None \<longrightarrow>
           fst (sendCommand T cmd ctrl w) = (fill (replicate 64 0) data, None)))"
proof (intro conjI impI)
  show "sendCommand (recount wn rn T) cmd ctrl w = sendCommand T cmd ctrl w"
    by (rule sendCommand_recount)
  show "PortUp (recount wn rn T) port w = PortUp T port w"
    unfolding PortUp_def sendCommand_recount by (rule refl)
  show "PortDown (recount wn rn T) port w = PortDown T port w"
    unfolding PortDown_def sendCommand_recount by (rule refl)
  show "GetPortState (recount wn rn T) port w = GetPortState T port w"
    unfolding GetPortState_def sendCommand_recount by (rule refl)
next
  assume a: "device (handle w) = Some d"
    "hid_Write T d (cmd # ctrl # replicate 62 0) = (d1, n, werr)"
    "hid_Read T d1 64 = (d2, data, m, rerr)"
  show "snd (fst (sendCommand T cmd ctrl w)) = None \<longleftrightarrow> werr = None \<and> rerr = None"
    by (simp add: sendCommand_open [OF a] split: option.splits)
  show "fst (sendCommand T cmd ctrl w) = (fill (replicate 64 0) data, None)"
    if "werr = None \<and> rerr = None"
    using that by (simp add: sendCommand_open [OF a])
qed

theorem counts_ignored_witness:
  "hid_Write (recount (\<lambda>d buf. 1) (\<lambda>d k. 0) scripted) [[0x01, 0x11]]
      (0x11 # 0x11 # replicate 62 0) = ([[0x01, 0x11]], 1, None)
   \<and> hid_Read (recount (\<lambda>d buf. 1) (\<lambda>d k. 0) scripted) [[0x01, 0x11]] 64 =
      ([], [0x01, 0x11], 0, None)
   \<and> fst (sendCommand (recount (\<lambda>d buf. 1) (\<lambda>d k. 0) scripted) 0x11 0x11
            (opened [[0x01, 0x11]])) = (0x01 # 0x11 # replicate 62 0, None)
   \<and> fst (PortUp (recount (\<lambda>d buf. 1) (\<lambda>d k. 0) scripted) Port1 (opened [[0x01, 0x11]])) = None"
proof -
  have W: "hid_Write (recount (\<lambda>d buf. 1) (\<lambda>d k. 0) scripted) [[0x01, 0x11]]
      (0x11 # 0x11 # replicate 62 0) = ([[0x01, 0x11]], 1, None)"
    by (simp add: recount_Write scripted_Write)
  have R: "hid_Read (recount (\<lambda>d buf. 1) (\<lambda>d k. 0) scripted) [[0x01, 0x11]] 64 =
      ([], [0x01, 0x11], 0, None)"
    by (simp add: recount_Read scripted_Read)
  have U: "fst (PortUp scripted Port1 (opened [[0x01, 0x11]])) = None"
    using PortUp_response [OF PortUp_cmd_simps(1) opened_device(1) [of "[[0x01, 0x11 :: byte]]"]
            scripted_Write scripted_Read(1) refl]
    by (simp add: fill_two)
  note c = counts_ignored [where wn = "\<lambda>d buf. 1" and rn = "\<lambda>d k. 0"
             and T = "recount (\<lambda>d buf. 1) (\<lambda>d k. 0) scripted" and cmd = "0x11"
             and ctrl = "0x11" and w = "opened [[0x01, 0x11]]" and port = Port1
             and d = "[[0x01, 0x11]]" and ?d1.0 = "[[0x01, 0x11]]" and n = 1 and werr = None
             and ?d2.0 = "[]" and data = "[0x01, 0x11]" and m = 0 and rerr = None]
  note c' = counts_ignored [where wn = "\<lambda>d buf. 1" and rn = "\<lambda>d k. 0" and T = scripted
             and cmd = "0x11" and ctrl = "0x11" and w = "opened [[0x01, 0x11]]" and port = Port1]
  show ?thesis
    using c c' by (simp add: W R U opened_device fill_two_list)
qed

end
